theory Spec2Isabelle
  imports Main
begin

section \<open>Exceptions\<close>

text \<open>
  The tasks of \<^verbatim>\<open>api/tasks.py\<close> distinguish three classes of exception in their
  \<^verbatim>\<open>except\<close> clauses: \<^verbatim>\<open>FileNotFoundError\<close>, billiard's
  \<^verbatim>\<open>SoftTimeLimitExceeded\<close> and the catch-all \<^verbatim>\<open>Exception\<close>. The ORM's
  \<^verbatim>\<open>DoesNotExist\<close> is raised by \<^verbatim>\<open>objects.get\<close>. All four are subclasses of
  \<^verbatim>\<open>Exception\<close>; the constructor \<open>Exception\<close> stands for every other subclass
  (\<^verbatim>\<open>OSError\<close>, \<^verbatim>\<open>IsADirectoryError\<close>, ...). Each value carries the text
  that \<^verbatim>\<open>str(error)\<close> returns.
\<close>

datatype exn =
    FileNotFoundError string
  | SoftTimeLimitExceeded string
  | DoesNotExist string
  | Exception string

fun str :: "exn \<Rightarrow> string" where
  "str (FileNotFoundError m) = m"
| "str (SoftTimeLimitExceeded m) = m"
| "str (DoesNotExist m) = m"
| "str (Exception m) = m"

section \<open>The local file system\<close>

text \<open>
  A flat POSIX file system: an association list from path strings to nodes, read with
  \<open>map_of\<close>. Paths are compared as strings (no normalisation of \<^verbatim>\<open>//\<close> or
  \<^verbatim>\<open>..\<close>), and an operation does not ask whether the parent directory of its path
  exists.
\<close>

datatype node = File string | Dir

type_synonym fsys = "(string \<times> node) list"

definition quote :: "string \<Rightarrow> string" where
  "quote p = CHR 0x27 # p @ [CHR 0x27]"

text \<open>\<^verbatim>\<open>posixpath.join\<close>: an absolute component discards what precedes it.\<close>

definition os_path_join2 :: "string \<Rightarrow> string \<Rightarrow> string" where
  "os_path_join2 path b =
     (if (case b of [] \<Rightarrow> False | c # _ \<Rightarrow> c = CHR ''/'') then b
      else if path = [] \<or> last path = CHR ''/'' then path @ b
      else path @ ''/'' @ b)"

definition os_path_join :: "string \<Rightarrow> string list \<Rightarrow> string" where
  "os_path_join a p = foldl os_path_join2 a p"

definition os_path_exists :: "fsys \<Rightarrow> string \<Rightarrow> bool" where
  "os_path_exists fs p = (map_of fs p \<noteq> None)"

definition is_under :: "string \<Rightarrow> string \<Rightarrow> bool" where
  "is_under d p =
     (let pre = os_path_join d [''''] in length pre < length p \<and> take (length pre) p = pre)"

definition fs_delete :: "string \<Rightarrow> fsys \<Rightarrow> fsys" where
  "fs_delete p fs = filter (\<lambda>(q, n). q \<noteq> p) fs"

definition fs_put :: "string \<Rightarrow> node \<Rightarrow> fsys \<Rightarrow> fsys" where
  "fs_put p n fs = (p, n) # fs_delete p fs"

definition has_children :: "fsys \<Rightarrow> string \<Rightarrow> bool" where
  "has_children fs d = list_ex (\<lambda>(q, n). is_under d q) fs"

definition no_such_file :: "string \<Rightarrow> exn" where
  "no_such_file p = FileNotFoundError (''[Errno 2] No such file or directory: '' @ quote p)"

definition is_a_directory :: "string \<Rightarrow> exn" where
  "is_a_directory p = Exception (''[Errno 21] Is a directory: '' @ quote p)"

definition not_a_directory :: "string \<Rightarrow> exn" where
  "not_a_directory p = Exception (''[Errno 20] Not a directory: '' @ quote p)"

definition directory_not_empty :: "string \<Rightarrow> exn" where
  "directory_not_empty p = Exception (''[Errno 39] Directory not empty: '' @ quote p)"

definition file_exists :: "string \<Rightarrow> exn" where
  "file_exists p = Exception (''[Errno 17] File exists: '' @ quote p)"

text \<open>The errors of an operation on two paths name both, each in its own quotes.\<close>

definition quote2 :: "string \<Rightarrow> string \<Rightarrow> string" where
  "quote2 src dst = quote src @ '' -> '' @ quote dst"

definition rename_no_such_file :: "string \<Rightarrow> string \<Rightarrow> exn" where
  "rename_no_such_file src dst =
     FileNotFoundError (''[Errno 2] No such file or directory: '' @ quote2 src dst)"

definition rename_is_a_directory :: "string \<Rightarrow> string \<Rightarrow> exn" where
  "rename_is_a_directory src dst = Exception (''[Errno 21] Is a directory: '' @ quote2 src dst)"

definition rename_not_a_directory :: "string \<Rightarrow> string \<Rightarrow> exn" where
  "rename_not_a_directory src dst = Exception (''[Errno 20] Not a directory: '' @ quote2 src dst)"

definition rename_directory_not_empty :: "string \<Rightarrow> string \<Rightarrow> exn" where
  "rename_directory_not_empty src dst =
     Exception (''[Errno 39] Directory not empty: '' @ quote2 src dst)"

text \<open>\<^verbatim>\<open>open(p, 'rb').read()\<close>\<close>

definition open_read :: "string \<Rightarrow> fsys \<Rightarrow> exn + string" where
  "open_read p fs =
     (case map_of fs p of
        Some (File c) \<Rightarrow> Inr c
      | Some Dir \<Rightarrow> Inl (is_a_directory p)
      | None \<Rightarrow> Inl (no_such_file p))"

definition os_remove :: "string \<Rightarrow> fsys \<Rightarrow> exn + fsys" where
  "os_remove p fs =
     (case map_of fs p of
        Some (File c) \<Rightarrow> Inr (fs_delete p fs)
      | Some Dir \<Rightarrow> Inl (is_a_directory p)
      | None \<Rightarrow> Inl (no_such_file p))"

definition os_rmdir :: "string \<Rightarrow> fsys \<Rightarrow> exn + fsys" where
  "os_rmdir p fs =
     (case map_of fs p of
        Some Dir \<Rightarrow>
          if has_children fs p then Inl (directory_not_empty p) else Inr (fs_delete p fs)
      | Some (File c) \<Rightarrow> Inl (not_a_directory p)
      | None \<Rightarrow> Inl (no_such_file p))"

text \<open>\<^verbatim>\<open>shutil.rmtree(p, ignore_errors=True)\<close> never raises.\<close>

definition shutil_rmtree :: "string \<Rightarrow> fsys \<Rightarrow> fsys" where
  "shutil_rmtree p fs =
     (case map_of fs p of
        Some Dir \<Rightarrow> filter (\<lambda>(q, n). q \<noteq> p \<and> \<not> is_under p q) fs
      | Some (File c) \<Rightarrow> fs
      | None \<Rightarrow> fs)"

text \<open>
  \<^verbatim>\<open>os.rename(src, dst)\<close>: a file replaces an existing file; a directory moves with
  everything below it, and replaces only an empty directory.
\<close>

definition move_path :: "string \<Rightarrow> string \<Rightarrow> string \<Rightarrow> string" where
  "move_path src dst q =
     (if q = src then dst
      else if is_under src q then os_path_join dst [drop (length (os_path_join src [''''])) q]
      else q)"

definition os_rename :: "string \<Rightarrow> string \<Rightarrow> fsys \<Rightarrow> exn + fsys" where
  "os_rename src dst fs =
     (case map_of fs src of
        None \<Rightarrow> Inl (rename_no_such_file src dst)
      | Some (File c) \<Rightarrow>
          (if src = dst then Inr fs
           else case map_of fs dst of
                  Some Dir \<Rightarrow> Inl (rename_is_a_directory src dst)
                | Some (File c') \<Rightarrow> Inr (fs_put dst (File c) (fs_delete src fs))
                | None \<Rightarrow> Inr (fs_put dst (File c) (fs_delete src fs)))
      | Some Dir \<Rightarrow>
          (if src = dst then Inr fs
           else case map_of fs dst of
                  Some (File c') \<Rightarrow> Inl (rename_not_a_directory src dst)
                | Some Dir \<Rightarrow>
                    if has_children fs dst then Inl (rename_directory_not_empty src dst)
                    else Inr (map (\<lambda>(q, n). (move_path src dst q, n)) (fs_delete dst fs))
                | None \<Rightarrow> Inr (map (\<lambda>(q, n). (move_path src dst q, n)) fs)))"

text \<open>\<^verbatim>\<open>pathlib.Path(p).mkdir(parents=True, exist_ok=True)\<close>\<close>

definition ancestors :: "string \<Rightarrow> string list" where
  "ancestors p = map (\<lambda>n. take n p) (filter (\<lambda>n. p ! n = CHR ''/'') [1..<length p])"

definition pathlib_mkdir :: "string \<Rightarrow> fsys \<Rightarrow> exn + fsys" where
  "pathlib_mkdir p fs =
     (case map_of fs p of
        Some Dir \<Rightarrow> Inr fs
      | Some (File c) \<Rightarrow> Inl (file_exists p)
      | None \<Rightarrow>
          (case filter (\<lambda>a. case map_of fs a of Some (File c) \<Rightarrow> True | Some Dir \<Rightarrow> False | None \<Rightarrow> False)
                  (ancestors p) of
             a # as \<Rightarrow> Inl (not_a_directory p)
           | [] \<Rightarrow> Inr (fs @ map (\<lambda>a. (a, Dir))
                               (filter (\<lambda>a. map_of fs a = None) (remdups (ancestors p @ [p]))))))"

section \<open>Database rows\<close>

text \<open>
  The models of \<^verbatim>\<open>api/models.py\<close> are framework-managed records; the tasks use the
  fields below. \<open>QUEUED\<close> stands for the status a row has before a task touches it. A file
  field is either a reference by name into the storage backend (\<open>FieldFile\<close>) or an
  in-memory \<^verbatim>\<open>ContentFile\<close> with its optional name and its bytes, which the backend
  stores when the row is saved.
\<close>

datatype TaskStatus = QUEUED | IN_PROGRESS | DONE | ERROR

datatype file_field = FieldFile string | ContentFile "string option" string

fun set_name :: "string \<Rightarrow> file_field \<Rightarrow> file_field" where
  "set_name n (FieldFile old) = FieldFile n"
| "set_name n (ContentFile old c) = ContentFile (Some n) c"

record StaticMix =
  sm_status :: TaskStatus
  sm_error :: string
  sm_file :: file_field
  sm_separator :: string
  sm_random_shifts :: int
  sm_vocals :: bool
  sm_drums :: bool
  sm_bass :: bool
  sm_other :: bool

record DynamicMix =
  dm_status :: TaskStatus
  dm_error :: string
  dm_vocals_file :: file_field
  dm_other_file :: file_field
  dm_bass_file :: file_field
  dm_drums_file :: file_field
  dm_separator :: string
  dm_random_shifts :: int

record SourceFile =
  sf_file :: file_field

record YTAudioDownloadTask =
  yt_status :: TaskStatus
  yt_error :: string

record database =
  static_mixes :: "string \<rightharpoonup> StaticMix"
  dynamic_mixes :: "string \<rightharpoonup> DynamicMix"
  source_files :: "string \<rightharpoonup> SourceFile"
  yt_tasks :: "string \<rightharpoonup> YTAudioDownloadTask"

section \<open>Separators\<close>

datatype separator = SpleeterSeparator | DemucsSeparator string int

definition get_separator :: "string \<Rightarrow> int \<Rightarrow> separator" where
  "get_separator sep random_shifts =
     (if sep = ''spleeter'' then SpleeterSeparator else DemucsSeparator sep random_shifts)"

section \<open>Settings and external components\<close>

text \<open>
  The Django settings, the model methods, \<^verbatim>\<open>slugify\<close>, the separators and the
  YouTube downloader are not part of \<^verbatim>\<open>tasks.py\<close>; they are parameters. A model
  method or \<^verbatim>\<open>get_file_ext\<close> returns a string or raises. A separator or the
  downloader transforms the local file system and may raise after having written to it;
  none of them writes a database row. The second argument of \<open>slugify\<close> is
  \<^verbatim>\<open>allow_unicode\<close>.

  The database and the storage backend behind \<^verbatim>\<open>save()\<close> are external as well: a
  \<^verbatim>\<open>save()\<close> may raise instead of storing the row (the database is unreachable, the
  upload of an in-memory file fails, the soft time limit strikes during the upload).
  \<open>save_error table id\<close> is the exception that the \<^verbatim>\<open>save()\<close> of that row raises
  inside a try block, if any.
\<close>

record env =
  MEDIA_ROOT :: string
  SEPARATE_DIR :: string
  UPLOAD_DIR :: string
  DEFAULT_FILE_STORAGE :: string
  slugify :: "string \<Rightarrow> bool \<Rightarrow> string"
  get_file_ext :: "string \<Rightarrow> exn + string"
  download_audio :: "string \<Rightarrow> string \<Rightarrow> fsys \<Rightarrow> exn option \<times> fsys"
  sep_create_static_mix ::
    "separator \<Rightarrow> (string \<times> bool) list \<Rightarrow> string \<Rightarrow> string \<Rightarrow> fsys \<Rightarrow> exn option \<times> fsys"
  sep_separate_into_parts :: "separator \<Rightarrow> string \<Rightarrow> string \<Rightarrow> fsys \<Rightarrow> exn option \<times> fsys"
  sm_formatted_name :: "string \<Rightarrow> StaticMix \<Rightarrow> exn + string"
  sm_source_path :: "string \<Rightarrow> StaticMix \<Rightarrow> exn + string"
  sm_source_url :: "string \<Rightarrow> StaticMix \<Rightarrow> exn + string"
  dm_formatted_name :: "string \<Rightarrow> DynamicMix \<Rightarrow> exn + string"
  dm_source_path :: "string \<Rightarrow> DynamicMix \<Rightarrow> exn + string"
  dm_source_url :: "string \<Rightarrow> DynamicMix \<Rightarrow> exn + string"
  save_error :: "string \<Rightarrow> string \<Rightarrow> exn option"

definition is_local :: "env \<Rightarrow> bool" where
  "is_local E = (DEFAULT_FILE_STORAGE E = ''django.core.files.storage.FileSystemStorage'')"

section \<open>Program state and effects\<close>

text \<open>
  A task runs on the database, the local disk and the in-memory model objects it has
  loaded (\<open>locals\<close>). The \<open>trace\<close> lists, in order, what the run has done so far: every
  line printed, every assignment to a status field, every \<^verbatim>\<open>save()\<close> with the status
  it stores (if the row has one), every call of an external component (logged when the call
  is made) and every file-system operation (logged when it returns).
\<close>

datatype event =
    Print string
  | Assign_status TaskStatus
  | Assign_file file_field
  | Save string string "TaskStatus option"
  | Call string
  | Exists string bool
  | Mkdir string
  | Rename string string
  | Read string
  | Remove string
  | Rmdir string
  | Rmtree string

record 'l state =
  db :: database
  disk :: fsys
  trace :: "event list"
  locals :: 'l

type_synonym ('l, 'a) M = "'l state \<Rightarrow> (exn + 'a) \<times> 'l state"

definition ret :: "'a \<Rightarrow> ('l, 'a) M" where
  "ret x = (\<lambda>s. (Inr x, s))"

definition throw :: "exn \<Rightarrow> ('l, 'a) M" where
  "throw e = (\<lambda>s. (Inl e, s))"

definition bind :: "('l, 'a) M \<Rightarrow> ('a \<Rightarrow> ('l, 'b) M) \<Rightarrow> ('l, 'b) M" where
  "bind m f = (\<lambda>s. case m s of (Inl e, s') \<Rightarrow> (Inl e, s') | (Inr x, s') \<Rightarrow> f x s')"

definition try_except :: "('l, 'a) M \<Rightarrow> (exn \<Rightarrow> ('l, 'a) M) \<Rightarrow> ('l, 'a) M" where
  "try_except m h = (\<lambda>s. case m s of (Inl e, s') \<Rightarrow> h e s' | (Inr x, s') \<Rightarrow> (Inr x, s'))"

definition emit :: "event \<Rightarrow> ('l, unit) M" where
  "emit ev = (\<lambda>s. (Inr (), s\<lparr>trace := trace s @ [ev]\<rparr>))"

definition print :: "string \<Rightarrow> ('l, unit) M" where
  "print line = emit (Print line)"

definition get_locals :: "('l, 'l) M" where
  "get_locals = (\<lambda>s. (Inr (locals s), s))"

definition modify_locals :: "('l \<Rightarrow> 'l) \<Rightarrow> ('l, unit) M" where
  "modify_locals f = (\<lambda>s. (Inr (), s\<lparr>locals := f (locals s)\<rparr>))"

text \<open>A call of a model method or another external function that returns or raises.\<close>

definition call :: "string \<Rightarrow> exn + 'a \<Rightarrow> ('l, 'a) M" where
  "call name r = bind (emit (Call name)) (\<lambda>u s. (r, s))"

text \<open>A call of a separator or the downloader, which work on the disk.\<close>

definition call_ext :: "string \<Rightarrow> (fsys \<Rightarrow> exn option \<times> fsys) \<Rightarrow> ('l, unit) M" where
  "call_ext name f =
     bind (emit (Call name))
       (\<lambda>u s. case f (disk s) of
                 (None, fs') \<Rightarrow> (Inr (), s\<lparr>disk := fs'\<rparr>)
               | (Some e, fs') \<Rightarrow> (Inl e, s\<lparr>disk := fs'\<rparr>))"

text \<open>A file-system operation of the standard library: it changes the disk or raises.\<close>

definition fs_op :: "(fsys \<Rightarrow> exn + fsys) \<Rightarrow> event \<Rightarrow> ('l, unit) M" where
  "fs_op f ev =
     (\<lambda>s. case f (disk s) of
             Inl e \<Rightarrow> (Inl e, s)
           | Inr fs' \<Rightarrow> (Inr (), s\<lparr>disk := fs', trace := trace s @ [ev]\<rparr>))"

definition path_exists :: "string \<Rightarrow> ('l, bool) M" where
  "path_exists p =
     (\<lambda>s. (Inr (os_path_exists (disk s) p),
           s\<lparr>trace := trace s @ [Exists p (os_path_exists (disk s) p)]\<rparr>))"

definition read_file :: "string \<Rightarrow> ('l, string) M" where
  "read_file p =
     (\<lambda>s. case open_read p (disk s) of
             Inl e \<Rightarrow> (Inl e, s)
           | Inr c \<Rightarrow> (Inr c, s\<lparr>trace := trace s @ [Read p]\<rparr>))"

text \<open>A task starts and ends without model objects in memory.\<close>

definition enter :: "unit state \<Rightarrow> 'l \<Rightarrow> 'l state" where
  "enter w l = \<lparr>db = db w, disk = disk w, trace = trace w, locals = l\<rparr>"

definition leave :: "(exn + unit) \<times> 'l state \<Rightarrow> (exn + unit) \<times> unit state" where
  "leave r = (fst r, \<lparr>db = db (snd r), disk = disk (snd r), trace = trace (snd r), locals = ()\<rparr>)"

definition andthen :: "('l, unit) M \<Rightarrow> ('l, 'b) M \<Rightarrow> ('l, 'b) M" where
  "andthen m n = bind m (\<lambda>u. n)"

text \<open>\<^verbatim>\<open>obj.field = f\<close> and \<^verbatim>\<open>obj.field.name = n\<close> on a file field of a loaded row.\<close>

definition set_file :: "((file_field \<Rightarrow> file_field) \<Rightarrow> 'l \<Rightarrow> 'l) \<Rightarrow> file_field \<Rightarrow> ('l, unit) M" where
  "set_file upd f = andthen (modify_locals (upd (\<lambda>old. f))) (emit (Assign_file f))"

definition set_file_name ::
  "('l \<Rightarrow> file_field) \<Rightarrow> ((file_field \<Rightarrow> file_field) \<Rightarrow> 'l \<Rightarrow> 'l) \<Rightarrow> string \<Rightarrow> ('l, unit) M" where
  "set_file_name sel upd n = bind get_locals (\<lambda>l. set_file upd (set_name n (sel l)))"

text \<open>\<^verbatim>\<open>d[k]\<close> on a dictionary.\<close>

definition item :: "(string \<rightharpoonup> 'v) \<Rightarrow> string \<Rightarrow> ('l, 'v) M" where
  "item d k = (\<lambda>s. case d k of None \<Rightarrow> (Inl (Exception (quote k)), s) | Some v \<Rightarrow> (Inr v, s))"

text \<open>
  A \<^verbatim>\<open>save()\<close> inside a try block: it raises the exception \<open>fault\<close>, if there is one,
  and stores nothing; otherwise it writes the row. The \<^verbatim>\<open>save()\<close> that precedes the
  try block of a task and the \<^verbatim>\<open>save()\<close> of an exception handler have no handler
  around them: an exception of theirs would leave the task at once, so they are
  described for the runs in which they return, by the plain write.
\<close>

definition orm_save :: "exn option \<Rightarrow> ('l, unit) M \<Rightarrow> ('l, unit) M" where
  "orm_save fault write = (case fault of Some e \<Rightarrow> throw e | None \<Rightarrow> write)"

definition error_writing :: exn where
  "error_writing = Exception ''Error writing to file''"

section \<open>create_static_mix\<close>

definition sm_set_status :: "TaskStatus \<Rightarrow> (StaticMix, unit) M" where
  "sm_set_status st = andthen (modify_locals (\<lambda>m. m\<lparr>sm_status := st\<rparr>)) (emit (Assign_status st))"

definition sm_set_error :: "string \<Rightarrow> (StaticMix, unit) M" where
  "sm_set_error msg = modify_locals (\<lambda>m. m\<lparr>sm_error := msg\<rparr>)"

text \<open>
  What \<^verbatim>\<open>static_mix.save()\<close> does when it returns: it writes the loaded row. In the
  try block it is wrapped in \<open>orm_save\<close>, which decides whether it returns.
\<close>

definition sm_save :: "string \<Rightarrow> (StaticMix, unit) M" where
  "sm_save i =
     (\<lambda>s. (Inr (), s\<lparr>db := (db s)\<lparr>static_mixes := (static_mixes (db s))(i \<mapsto> locals s)\<rparr>,
                      trace := trace s @ [Save ''StaticMix'' i (Some (sm_status (locals s)))]\<rparr>))"

definition static_directory :: "env \<Rightarrow> string \<Rightarrow> string" where
  "static_directory E static_mix_id = os_path_join (MEDIA_ROOT E) [SEPARATE_DIR E, static_mix_id]"

definition static_filename :: "env \<Rightarrow> string \<Rightarrow> string" where
  "static_filename E name = slugify E name False @ ''.mp3''"

definition static_rel_media_path :: "env \<Rightarrow> string \<Rightarrow> string \<Rightarrow> string" where
  "static_rel_media_path E static_mix_id filename =
     os_path_join (SEPARATE_DIR E) [static_mix_id, filename]"

definition static_rel_path :: "env \<Rightarrow> string \<Rightarrow> string \<Rightarrow> string" where
  "static_rel_path E static_mix_id filename =
     os_path_join (MEDIA_ROOT E) [static_rel_media_path E static_mix_id filename]"

text \<open>Lines 47 to 71: get the paths, make the directory, run the separator.\<close>

definition static_separate :: "env \<Rightarrow> string \<Rightarrow> (StaticMix, string) M" where
  "static_separate E static_mix_id =
     bind get_locals (\<lambda>static_mix.
     bind (call ''formatted_name'' (sm_formatted_name E static_mix_id static_mix)) (\<lambda>name.
     let directory = static_directory E static_mix_id;
         filename = static_filename E name;
         rel_path = static_rel_path E static_mix_id filename
     in
     andthen (fs_op (pathlib_mkdir directory) (Mkdir directory)) (
     let separator = get_separator (sm_separator static_mix) (sm_random_shifts static_mix);
         parts = [(''vocals'', sm_vocals static_mix), (''drums'', sm_drums static_mix),
                  (''bass'', sm_bass static_mix), (''other'', sm_other static_mix)]
     in
     bind (if is_local E then call ''source_path'' (sm_source_path E static_mix_id static_mix)
           else call ''source_url'' (sm_source_url E static_mix_id static_mix)) (\<lambda>path.
     andthen (call_ext ''create_static_mix'' (sep_create_static_mix E separator parts path rel_path))
       (ret filename)))))"

text \<open>Lines 73 to 91: check that the file exists, store it, save the row.\<close>

definition static_store :: "env \<Rightarrow> string \<Rightarrow> string \<Rightarrow> (StaticMix, unit) M" where
  "static_store E static_mix_id filename =
     (let rel_media_path = static_rel_media_path E static_mix_id filename;
          rel_path = static_rel_path E static_mix_id filename;
          rel_path_dir = static_directory E static_mix_id
      in
      bind (path_exists rel_path) (\<lambda>ok.
      if ok then
        andthen (sm_set_status DONE) (
        andthen (if is_local E then set_file_name sm_file sm_file_update rel_media_path
                 else
                   bind (read_file rel_path) (\<lambda>raw.
                   andthen (set_file sm_file_update (set_name filename (ContentFile None raw))) (
                   andthen (fs_op (os_remove rel_path) (Remove rel_path))
                     (fs_op (os_rmdir rel_path_dir) (Rmdir rel_path_dir)))))
          (orm_save (save_error E ''StaticMix'' static_mix_id) (sm_save static_mix_id)))
      else throw error_writing))"

definition sm_record_error :: "string \<Rightarrow> exn \<Rightarrow> (StaticMix, unit) M" where
  "sm_record_error static_mix_id error =
     andthen (sm_set_status ERROR) (andthen (sm_set_error (str error)) (sm_save static_mix_id))"

definition static_handler :: "string \<Rightarrow> exn \<Rightarrow> (StaticMix, unit) M" where
  "static_handler static_mix_id error =
     (case error of
        FileNotFoundError m \<Rightarrow>
          andthen (print (str error)) (
          andthen (print ''Please make sure you have FFmpeg and FFprobe installed.'')
            (sm_record_error static_mix_id error))
      | SoftTimeLimitExceeded m \<Rightarrow> print ''Aborted!''
      | DoesNotExist m \<Rightarrow> andthen (print (str error)) (sm_record_error static_mix_id error)
      | Exception m \<Rightarrow> andthen (print (str error)) (sm_record_error static_mix_id error))"

definition static_body :: "env \<Rightarrow> string \<Rightarrow> (StaticMix, unit) M" where
  "static_body E static_mix_id = bind (static_separate E static_mix_id) (static_store E static_mix_id)"

definition static_try :: "env \<Rightarrow> string \<Rightarrow> (StaticMix, unit) M" where
  "static_try E static_mix_id =
     try_except (static_body E static_mix_id) (static_handler static_mix_id)"

definition create_static_mix :: "env \<Rightarrow> string \<Rightarrow> unit state \<Rightarrow> (exn + unit) \<times> unit state" where
  "create_static_mix E static_mix_id w =
     (case static_mixes (db w) static_mix_id of
        None \<Rightarrow> (Inr (), w\<lparr>trace := trace w @ [Print ''StaticMix does not exist'']\<rparr>)
      | Some static_mix \<Rightarrow>
          leave ((andthen (sm_set_status IN_PROGRESS) (
                  andthen (sm_save static_mix_id) (static_try E static_mix_id)))
                 (enter w static_mix)))"

section \<open>create_dynamic_mix and its helpers\<close>

definition dm_set_status :: "TaskStatus \<Rightarrow> (DynamicMix, unit) M" where
  "dm_set_status st = andthen (modify_locals (\<lambda>m. m\<lparr>dm_status := st\<rparr>)) (emit (Assign_status st))"

definition dm_set_error :: "string \<Rightarrow> (DynamicMix, unit) M" where
  "dm_set_error msg = modify_locals (\<lambda>m. m\<lparr>dm_error := msg\<rparr>)"

text \<open>What \<^verbatim>\<open>dynamic_mix.save()\<close> does when it returns.\<close>

definition dm_save :: "string \<Rightarrow> (DynamicMix, unit) M" where
  "dm_save i =
     (\<lambda>s. (Inr (), s\<lparr>db := (db s)\<lparr>dynamic_mixes := (dynamic_mixes (db s))(i \<mapsto> locals s)\<rparr>,
                      trace := trace s @ [Save ''DynamicMix'' i (Some (dm_status (locals s)))]\<rparr>))"

fun exists_parts :: "string \<Rightarrow> string list \<Rightarrow> ('l, bool) M" where
  "exists_parts rel_path [] = ret True"
| "exists_parts rel_path (part # parts) =
     (let rel_part_path = os_path_join rel_path [part @ ''.mp3''] in
      bind (path_exists rel_part_path) (\<lambda>found.
      if \<not> found then andthen (print (rel_part_path @ '' does not exist'')) (ret False)
      else exists_parts rel_path parts))"

definition exists_all_parts :: "string \<Rightarrow> ('l, bool) M" where
  "exists_all_parts rel_path = exists_parts rel_path [''vocals'', ''other'', ''bass'', ''drums'']"

fun rename_parts :: "string \<Rightarrow> string \<Rightarrow> string list \<Rightarrow> ('l, unit) M" where
  "rename_parts rel_path file_prefix [] = ret ()"
| "rename_parts rel_path file_prefix (part # parts) =
     (let old_rel_path = os_path_join rel_path [part @ ''.mp3''];
          new_rel_path = os_path_join rel_path [file_prefix @ ''-'' @ part @ ''.mp3'']
      in
      andthen (print (''renaming '' @ old_rel_path @ '' to '' @ new_rel_path)) (
      andthen (fs_op (os_rename old_rel_path new_rel_path) (Rename old_rel_path new_rel_path))
        (rename_parts rel_path file_prefix parts)))"

definition rename_all_parts :: "string \<Rightarrow> string \<Rightarrow> ('l, unit) M" where
  "rename_all_parts rel_path file_prefix =
     rename_parts rel_path file_prefix [''vocals'', ''other'', ''bass'', ''drums'']"

text \<open>
  The two helpers below receive the loaded row \<^verbatim>\<open>dynamic_mix\<close>; here they receive its
  id, and the deployment whose database the row is saved to.
\<close>

definition save_to_local_storage ::
  "env \<Rightarrow> string \<Rightarrow> string \<Rightarrow> string \<Rightarrow> (DynamicMix, unit) M" where
  "save_to_local_storage E dynamic_mix_id rel_media_path file_prefix =
     (let rel_media_path_vocals = os_path_join rel_media_path [file_prefix @ ''-vocals.mp3''];
          rel_media_path_other = os_path_join rel_media_path [file_prefix @ ''-other.mp3''];
          rel_media_path_bass = os_path_join rel_media_path [file_prefix @ ''-bass.mp3''];
          rel_media_path_drums = os_path_join rel_media_path [file_prefix @ ''-drums.mp3'']
      in
      andthen (set_file_name dm_vocals_file dm_vocals_file_update rel_media_path_vocals) (
      andthen (set_file_name dm_other_file dm_other_file_update rel_media_path_other) (
      andthen (set_file_name dm_bass_file dm_bass_file_update rel_media_path_bass) (
      andthen (set_file_name dm_drums_file dm_drums_file_update rel_media_path_drums)
        (orm_save (save_error E ''DynamicMix'' dynamic_mix_id) (dm_save dynamic_mix_id))))))"

fun read_parts ::
  "string \<Rightarrow> (string \<rightharpoonup> string) \<Rightarrow> string list \<Rightarrow> (string \<rightharpoonup> file_field)
     \<Rightarrow> ('l, string \<rightharpoonup> file_field) M" where
  "read_parts rel_path_dir filenames [] content_files = ret content_files"
| "read_parts rel_path_dir filenames (part # parts) content_files =
     bind (item filenames part) (\<lambda>filename.
     let rel_path = os_path_join rel_path_dir [filename] in
     bind (read_file rel_path) (\<lambda>raw.
     read_parts rel_path_dir filenames parts
       (content_files(part \<mapsto> set_name filename (ContentFile None raw)))))"

definition save_to_ext_storage ::
  "env \<Rightarrow> string \<Rightarrow> string \<Rightarrow> string \<Rightarrow> (DynamicMix, unit) M" where
  "save_to_ext_storage E dynamic_mix_id rel_path_dir file_prefix =
     (let parts = [''vocals'', ''other'', ''bass'', ''drums''];
          filenames = [''vocals'' \<mapsto> file_prefix @ ''-vocals.mp3'',
                       ''other'' \<mapsto> file_prefix @ ''-other.mp3'',
                       ''bass'' \<mapsto> file_prefix @ ''-bass.mp3'',
                       ''drums'' \<mapsto> file_prefix @ ''-drums.mp3'']
      in
      bind (read_parts rel_path_dir filenames parts Map.empty) (\<lambda>content_files.
      bind (item content_files ''vocals'') (\<lambda>vocals.
      andthen (set_file dm_vocals_file_update vocals) (
      bind (item content_files ''other'') (\<lambda>other.
      andthen (set_file dm_other_file_update other) (
      bind (item content_files ''bass'') (\<lambda>bass.
      andthen (set_file dm_bass_file_update bass) (
      bind (item content_files ''drums'') (\<lambda>drums.
      andthen (set_file dm_drums_file_update drums) (
      andthen (orm_save (save_error E ''DynamicMix'' dynamic_mix_id) (dm_save dynamic_mix_id))
        (fs_op (\<lambda>fs. Inr (shutil_rmtree rel_path_dir fs)) (Rmtree rel_path_dir))))))))))))"

definition dynamic_rel_media_path :: "env \<Rightarrow> string \<Rightarrow> string" where
  "dynamic_rel_media_path E dynamic_mix_id = os_path_join (SEPARATE_DIR E) [dynamic_mix_id]"

definition dynamic_rel_path :: "env \<Rightarrow> string \<Rightarrow> string" where
  "dynamic_rel_path E dynamic_mix_id =
     os_path_join (MEDIA_ROOT E) [dynamic_rel_media_path E dynamic_mix_id]"

definition dynamic_directory :: "env \<Rightarrow> string \<Rightarrow> string" where
  "dynamic_directory E dynamic_mix_id =
     os_path_join (MEDIA_ROOT E) [SEPARATE_DIR E, dynamic_mix_id]"

text \<open>Lines 125 to 140: get the paths, make the directory, run the separator.\<close>

definition dynamic_separate :: "env \<Rightarrow> string \<Rightarrow> (DynamicMix, string) M" where
  "dynamic_separate E dynamic_mix_id =
     bind get_locals (\<lambda>dynamic_mix.
     bind (call ''formatted_name'' (dm_formatted_name E dynamic_mix_id dynamic_mix)) (\<lambda>name.
     let directory = dynamic_directory E dynamic_mix_id;
         file_prefix = slugify E name False;
         rel_path = dynamic_rel_path E dynamic_mix_id
     in
     andthen (fs_op (pathlib_mkdir directory) (Mkdir directory)) (
     let separator = get_separator (dm_separator dynamic_mix) (dm_random_shifts dynamic_mix) in
     bind (if is_local E then call ''source_path'' (dm_source_path E dynamic_mix_id dynamic_mix)
           else call ''source_url'' (dm_source_url E dynamic_mix_id dynamic_mix)) (\<lambda>path.
     andthen (call_ext ''separate_into_parts'' (sep_separate_into_parts E separator path rel_path))
       (ret file_prefix)))))"

text \<open>Lines 142 to 151: check that all parts exist, rename them, store them.\<close>

definition dynamic_store :: "env \<Rightarrow> string \<Rightarrow> string \<Rightarrow> (DynamicMix, unit) M" where
  "dynamic_store E dynamic_mix_id file_prefix =
     (let rel_media_path = dynamic_rel_media_path E dynamic_mix_id;
          rel_path = dynamic_rel_path E dynamic_mix_id
      in
      bind (exists_all_parts rel_path) (\<lambda>ok.
      if ok then
        andthen (rename_all_parts rel_path file_prefix) (
        andthen (dm_set_status DONE)
          (if is_local E then save_to_local_storage E dynamic_mix_id rel_media_path file_prefix
           else save_to_ext_storage E dynamic_mix_id rel_path file_prefix))
      else throw error_writing))"

definition dm_record_error :: "string \<Rightarrow> exn \<Rightarrow> (DynamicMix, unit) M" where
  "dm_record_error dynamic_mix_id error =
     andthen (dm_set_status ERROR) (andthen (dm_set_error (str error)) (dm_save dynamic_mix_id))"

definition dynamic_handler :: "string \<Rightarrow> exn \<Rightarrow> (DynamicMix, unit) M" where
  "dynamic_handler dynamic_mix_id error =
     (case error of
        FileNotFoundError m \<Rightarrow>
          andthen (print (str error)) (
          andthen (print ''Please make sure you have FFmpeg and FFprobe installed.'')
            (dm_record_error dynamic_mix_id error))
      | SoftTimeLimitExceeded m \<Rightarrow> print ''Aborted!''
      | DoesNotExist m \<Rightarrow> andthen (print (str error)) (dm_record_error dynamic_mix_id error)
      | Exception m \<Rightarrow> andthen (print (str error)) (dm_record_error dynamic_mix_id error))"

definition dynamic_body :: "env \<Rightarrow> string \<Rightarrow> (DynamicMix, unit) M" where
  "dynamic_body E dynamic_mix_id =
     bind (dynamic_separate E dynamic_mix_id) (dynamic_store E dynamic_mix_id)"

definition dynamic_try :: "env \<Rightarrow> string \<Rightarrow> (DynamicMix, unit) M" where
  "dynamic_try E dynamic_mix_id =
     try_except (dynamic_body E dynamic_mix_id) (dynamic_handler dynamic_mix_id)"

definition create_dynamic_mix :: "env \<Rightarrow> string \<Rightarrow> unit state \<Rightarrow> (exn + unit) \<times> unit state" where
  "create_dynamic_mix E dynamic_mix_id w =
     (case dynamic_mixes (db w) dynamic_mix_id of
        None \<Rightarrow> (Inr (), w\<lparr>trace := trace w @ [Print ''DynamicMix does not exist'']\<rparr>)
      | Some dynamic_mix \<Rightarrow>
          leave ((andthen (dm_set_status IN_PROGRESS) (
                  andthen (dm_save dynamic_mix_id) (dynamic_try E dynamic_mix_id)))
                 (enter w dynamic_mix)))"

section \<open>fetch_youtube_audio\<close>

record fetch_locals =
  source_file :: SourceFile
  fetch_task :: YTAudioDownloadTask

definition yt_set_status :: "TaskStatus \<Rightarrow> (fetch_locals, unit) M" where
  "yt_set_status st =
     andthen (modify_locals (\<lambda>l. l\<lparr>fetch_task := (fetch_task l)\<lparr>yt_status := st\<rparr>\<rparr>))
       (emit (Assign_status st))"

definition yt_set_error :: "string \<Rightarrow> (fetch_locals, unit) M" where
  "yt_set_error msg = modify_locals (\<lambda>l. l\<lparr>fetch_task := (fetch_task l)\<lparr>yt_error := msg\<rparr>\<rparr>)"

text \<open>
  What \<^verbatim>\<open>fetch_task.save()\<close> and \<^verbatim>\<open>source_file.save()\<close> do when they return. In
  the try block (lines 225 and 226) each is wrapped in \<open>orm_save\<close>: the second can raise
  after the first has stored its row.
\<close>

definition yt_save :: "string \<Rightarrow> (fetch_locals, unit) M" where
  "yt_save i =
     (\<lambda>s. (Inr (), s\<lparr>db := (db s)\<lparr>yt_tasks := (yt_tasks (db s))(i \<mapsto> fetch_task (locals s))\<rparr>,
                      trace := trace s @ [Save ''YTAudioDownloadTask'' i
                                            (Some (yt_status (fetch_task (locals s))))]\<rparr>))"

definition sf_save :: "string \<Rightarrow> (fetch_locals, unit) M" where
  "sf_save i =
     (\<lambda>s. (Inr (), s\<lparr>db := (db s)\<lparr>source_files := (source_files (db s))(i \<mapsto> source_file (locals s))\<rparr>,
                      trace := trace s @ [Save ''SourceFile'' i None]\<rparr>))"

definition sf_file_of :: "fetch_locals \<Rightarrow> file_field" where
  "sf_file_of l = sf_file (source_file l)"

definition sf_file_upd :: "(file_field \<Rightarrow> file_field) \<Rightarrow> fetch_locals \<Rightarrow> fetch_locals" where
  "sf_file_upd f l = l\<lparr>source_file := (source_file l)\<lparr>sf_file := f (sf_file (source_file l))\<rparr>\<rparr>"

definition fetch_directory :: "env \<Rightarrow> string \<Rightarrow> string" where
  "fetch_directory E source_file_id = os_path_join (MEDIA_ROOT E) [UPLOAD_DIR E, source_file_id]"

definition fetch_filename :: "env \<Rightarrow> string \<Rightarrow> string \<Rightarrow> string \<Rightarrow> string" where
  "fetch_filename E artist title ext = slugify E (artist @ '' - '' @ title) True @ ext"

definition fetch_rel_media_path :: "env \<Rightarrow> string \<Rightarrow> string \<Rightarrow> string" where
  "fetch_rel_media_path E source_file_id filename =
     os_path_join (UPLOAD_DIR E) [source_file_id, filename]"

definition fetch_rel_path :: "env \<Rightarrow> string \<Rightarrow> string \<Rightarrow> string" where
  "fetch_rel_path E source_file_id filename =
     os_path_join (MEDIA_ROOT E) [fetch_rel_media_path E source_file_id filename]"

text \<open>Lines 191 to 202: get the paths, make the directory, download.\<close>

definition fetch_download ::
  "env \<Rightarrow> string \<Rightarrow> string \<Rightarrow> string \<Rightarrow> string \<Rightarrow> (fetch_locals, string) M" where
  "fetch_download E source_file_id artist title link =
     bind (call ''get_file_ext'' (get_file_ext E link)) (\<lambda>ext.
     let directory = fetch_directory E source_file_id;
         filename = fetch_filename E artist title ext;
         rel_path = fetch_rel_path E source_file_id filename
     in
     andthen (fs_op (pathlib_mkdir directory) (Mkdir directory)) (
     andthen (call_ext ''download_audio'' (download_audio E link rel_path))
       (ret filename)))"

text \<open>Lines 204 to 228: check that the file exists, store it, save both rows.\<close>

definition fetch_store :: "env \<Rightarrow> string \<Rightarrow> string \<Rightarrow> string \<Rightarrow> (fetch_locals, unit) M" where
  "fetch_store E source_file_id fetch_task_id filename =
     (let rel_media_path = fetch_rel_media_path E source_file_id filename;
          rel_path = fetch_rel_path E source_file_id filename
      in
      bind (path_exists rel_path) (\<lambda>ok.
      if ok then
        andthen (yt_set_status DONE) (
        andthen (if is_local E then set_file_name sf_file_of sf_file_upd rel_media_path
                 else
                   bind (read_file rel_path) (\<lambda>raw.
                   andthen (set_file sf_file_upd (set_name filename (ContentFile None raw))) (
                   let rel_dir_path = os_path_join (MEDIA_ROOT E) [UPLOAD_DIR E, source_file_id] in
                   andthen (fs_op (os_remove rel_path) (Remove rel_path))
                     (fs_op (os_rmdir rel_dir_path) (Rmdir rel_dir_path))))) (
        andthen (orm_save (save_error E ''YTAudioDownloadTask'' fetch_task_id)
                   (yt_save fetch_task_id))
          (orm_save (save_error E ''SourceFile'' source_file_id) (sf_save source_file_id))))
      else throw error_writing))"

definition yt_record_error :: "string \<Rightarrow> exn \<Rightarrow> (fetch_locals, unit) M" where
  "yt_record_error fetch_task_id error =
     andthen (print (str error)) (
     andthen (yt_set_status ERROR) (
     andthen (yt_set_error (str error)) (
     andthen (yt_save fetch_task_id) (throw error))))"

definition fetch_handler :: "string \<Rightarrow> exn \<Rightarrow> (fetch_locals, unit) M" where
  "fetch_handler fetch_task_id error =
     (case error of
        SoftTimeLimitExceeded m \<Rightarrow> print ''Aborted!''
      | FileNotFoundError m \<Rightarrow> yt_record_error fetch_task_id error
      | DoesNotExist m \<Rightarrow> yt_record_error fetch_task_id error
      | Exception m \<Rightarrow> yt_record_error fetch_task_id error)"

definition fetch_body ::
  "env \<Rightarrow> string \<Rightarrow> string \<Rightarrow> string \<Rightarrow> string \<Rightarrow> string \<Rightarrow> (fetch_locals, unit) M" where
  "fetch_body E source_file_id fetch_task_id artist title link =
     bind (fetch_download E source_file_id artist title link)
       (fetch_store E source_file_id fetch_task_id)"

definition fetch_try ::
  "env \<Rightarrow> string \<Rightarrow> string \<Rightarrow> string \<Rightarrow> string \<Rightarrow> string \<Rightarrow> (fetch_locals, unit) M" where
  "fetch_try E source_file_id fetch_task_id artist title link =
     try_except (fetch_body E source_file_id fetch_task_id artist title link)
       (fetch_handler fetch_task_id)"

definition does_not_exist :: exn where
  "does_not_exist = DoesNotExist ''YTAudioDownloadTask matching query does not exist.''"

definition fetch_youtube_audio ::
  "env \<Rightarrow> string \<Rightarrow> string \<Rightarrow> string \<Rightarrow> string \<Rightarrow> string \<Rightarrow> unit state
     \<Rightarrow> (exn + unit) \<times> unit state" where
  "fetch_youtube_audio E source_file_id fetch_task_id artist title link w =
     (case source_files (db w) source_file_id of
        None \<Rightarrow> (Inr (), w\<lparr>trace := trace w @ [Print ''SourceFile does not exist'']\<rparr>)
      | Some sf \<Rightarrow>
          (case yt_tasks (db w) fetch_task_id of
             None \<Rightarrow> (Inl does_not_exist, w)
           | Some ft \<Rightarrow>
               leave ((andthen (yt_set_status IN_PROGRESS) (
                       andthen (yt_save fetch_task_id)
                         (fetch_try E source_file_id fetch_task_id artist title link)))
                      (enter w \<lparr>source_file = sf, fetch_task = ft\<rparr>))))"

section \<open>Concrete deployments and worlds\<close>

text \<open>
  A deployment with an external object store, in which every external component succeeds:
  the separators and the downloader write exactly the files asked of them, and every
  \<^verbatim>\<open>save()\<close> stores its row. Its
  \<open>slugify\<close> drops spaces, which is what Django's does on the names used below.
\<close>

definition deploy_ext :: env where
  "deploy_ext =
     \<lparr>MEDIA_ROOT = ''media'', SEPARATE_DIR = ''separate'', UPLOAD_DIR = ''uploads'',
      DEFAULT_FILE_STORAGE = ''storages.backends.s3boto3.S3Boto3Storage'',
      slugify = (\<lambda>s allow_unicode. filter (\<lambda>c. c \<noteq> CHR '' '') s),
      get_file_ext = (\<lambda>link. Inr ''.webm''),
      download_audio = (\<lambda>link out fs. (None, fs_put out (File ''audio'') fs)),
      sep_create_static_mix = (\<lambda>sep parts path out fs. (None, fs_put out (File ''mix'') fs)),
      sep_separate_into_parts = (\<lambda>sep path out fs.
        (None, fs_put (os_path_join out [''vocals.mp3'']) (File ''v'')
                (fs_put (os_path_join out [''other.mp3'']) (File ''o'')
                (fs_put (os_path_join out [''bass.mp3'']) (File ''b'')
                (fs_put (os_path_join out [''drums.mp3'']) (File ''d'') fs))))),
      sm_formatted_name = (\<lambda>i m. Inr ''song''),
      sm_source_path = (\<lambda>i m. Inl (Exception ''This backend does not support absolute paths.'')),
      sm_source_url = (\<lambda>i m. Inr ''https://bucket/song.mp3''),
      dm_formatted_name = (\<lambda>i m. Inr ''song''),
      dm_source_path = (\<lambda>i m. Inl (Exception ''This backend does not support absolute paths.'')),
      dm_source_url = (\<lambda>i m. Inr ''https://bucket/song.mp3''),
      save_error = (\<lambda>table i. None)\<rparr>"

text \<open>The same deployment on the local file system.\<close>

definition deploy_local :: env where
  "deploy_local =
     deploy_ext\<lparr>DEFAULT_FILE_STORAGE := ''django.core.files.storage.FileSystemStorage'',
             sm_source_path := (\<lambda>i m. Inr ''media/uploads/3/song.mp3''),
             dm_source_path := (\<lambda>i m. Inr ''media/uploads/3/song.mp3'')\<rparr>"

text \<open>The worker is stopped by the soft time limit while the external component runs.\<close>

definition deploy_timeout :: env where
  "deploy_timeout =
     deploy_ext\<lparr>download_audio := (\<lambda>link out fs. (Some (SoftTimeLimitExceeded ''''), fs)),
             sep_create_static_mix :=
               (\<lambda>sep parts path out fs. (Some (SoftTimeLimitExceeded ''''), fs)),
             sep_separate_into_parts :=
               (\<lambda>sep path out fs. (Some (SoftTimeLimitExceeded ''''), fs))\<rparr>"

text \<open>The external component returns without having written its output.\<close>

definition deploy_silent :: env where
  "deploy_silent =
     deploy_ext\<lparr>download_audio := (\<lambda>link out fs. (None, fs)),
             sep_create_static_mix := (\<lambda>sep parts path out fs. (None, fs)),
             sep_separate_into_parts := (\<lambda>sep path out fs. (None, fs))\<rparr>"

text \<open>The external component fails with an error of its own.\<close>

definition deploy_failing :: env where
  "deploy_failing =
     deploy_ext\<lparr>download_audio := (\<lambda>link out fs. (Some (Exception ''HTTP Error 403''), fs)),
             sep_create_static_mix :=
               (\<lambda>sep parts path out fs. (Some (FileNotFoundError ''ffprobe''), fs)),
             sep_separate_into_parts :=
               (\<lambda>sep path out fs. (Some (FileNotFoundError ''ffprobe''), fs))\<rparr>"

text \<open>The static-mix separator leaves a second file beside its output.\<close>

definition deploy_litter :: env where
  "deploy_litter =
     deploy_ext\<lparr>sep_create_static_mix := (\<lambda>sep parts path out fs.
               (None, fs_put ''media/separate/1/tmp.wav'' (File ''w'') (fs_put out (File ''mix'') fs)))\<rparr>"

text \<open>The upload of the downloaded file fails when the SourceFile row is saved.\<close>

definition deploy_upload_fails :: env where
  "deploy_upload_fails =
     deploy_ext\<lparr>save_error := (\<lambda>table i.
        if table = ''SourceFile'' then Some (Exception ''upload failed'') else None)\<rparr>"

text \<open>The soft time limit strikes during that upload.\<close>

definition deploy_upload_timeout :: env where
  "deploy_upload_timeout =
     deploy_ext\<lparr>save_error := (\<lambda>table i.
        if table = ''SourceFile'' then Some (SoftTimeLimitExceeded '''') else None)\<rparr>"

definition sm0 :: StaticMix where
  "sm0 = \<lparr>sm_status = QUEUED, sm_error = '''', sm_file = FieldFile '''', sm_separator = ''spleeter'',
          sm_random_shifts = 0, sm_vocals = True, sm_drums = False, sm_bass = False,
          sm_other = False\<rparr>"

definition dm0 :: DynamicMix where
  "dm0 = \<lparr>dm_status = QUEUED, dm_error = '''', dm_vocals_file = FieldFile '''',
          dm_other_file = FieldFile '''', dm_bass_file = FieldFile '''',
          dm_drums_file = FieldFile '''', dm_separator = ''demucs'', dm_random_shifts = 1\<rparr>"

definition sf0 :: SourceFile where
  "sf0 = \<lparr>sf_file = FieldFile ''''\<rparr>"

definition yt0 :: YTAudioDownloadTask where
  "yt0 = \<lparr>yt_status = QUEUED, yt_error = ''''\<rparr>"

text \<open>One row in each table, an empty disk.\<close>

definition world0 :: "unit state" where
  "world0 =
     \<lparr>db = \<lparr>static_mixes = [''1'' \<mapsto> sm0], dynamic_mixes = [''2'' \<mapsto> dm0],
            source_files = [''3'' \<mapsto> sf0], yt_tasks = [''4'' \<mapsto> yt0]\<rparr>,
      disk = [], trace = [], locals = ()\<rparr>"


section \<open>Proof tools\<close>

fun is_soft_timeout :: "exn \<Rightarrow> bool" where
  "is_soft_timeout (SoftTimeLimitExceeded m) = True"
| "is_soft_timeout (FileNotFoundError m) = False"
| "is_soft_timeout (DoesNotExist m) = False"
| "is_soft_timeout (Exception m) = False"

lemmas M_defs = ret_def throw_def bind_def andthen_def try_except_def emit_def print_def
  get_locals_def modify_locals_def call_def call_ext_def fs_op_def path_exists_def
  read_file_def set_file_def set_file_name_def item_def orm_save_def

lemmas fs_defs = os_path_join_def os_path_join2_def os_path_exists_def is_under_def
  fs_delete_def fs_put_def has_children_def open_read_def os_remove_def os_rmdir_def
  shutil_rmtree_def os_rename_def pathlib_mkdir_def ancestors_def move_path_def
  no_such_file_def is_a_directory_def not_a_directory_def directory_not_empty_def
  file_exists_def quote_def quote2_def rename_no_such_file_def rename_is_a_directory_def
  rename_not_a_directory_def rename_directory_not_empty_def

lemmas deploy_defs = deploy_ext_def deploy_local_def deploy_timeout_def deploy_silent_def
  deploy_failing_def deploy_litter_def deploy_upload_fails_def deploy_upload_timeout_def
  sm0_def dm0_def sf0_def yt0_def world0_def

lemmas static_defs = static_try_def static_body_def static_separate_def static_store_def
  static_handler_def sm_record_error_def sm_set_status_def sm_set_error_def sm_save_def
  static_directory_def static_filename_def static_rel_media_path_def static_rel_path_def

lemmas dynamic_defs = dynamic_try_def dynamic_body_def dynamic_separate_def dynamic_store_def
  dynamic_handler_def dm_record_error_def dm_set_status_def dm_set_error_def dm_save_def
  dynamic_directory_def dynamic_rel_media_path_def dynamic_rel_path_def
  exists_all_parts_def rename_all_parts_def save_to_local_storage_def save_to_ext_storage_def

lemmas fetch_defs = fetch_try_def fetch_body_def fetch_download_def fetch_store_def
  fetch_handler_def yt_record_error_def yt_set_status_def yt_set_error_def yt_save_def sf_save_def
  fetch_directory_def fetch_filename_def fetch_rel_media_path_def fetch_rel_path_def
  sf_file_of_def sf_file_upd_def

text \<open>Everything a run on a concrete deployment unfolds to.\<close>

lemmas run_defs = create_static_mix_def create_dynamic_mix_def fetch_youtube_audio_def
  static_defs dynamic_defs fetch_defs M_defs fs_defs deploy_defs
  is_local_def get_separator_def enter_def leave_def error_writing_def does_not_exist_def
  Let_def upt_rec

text \<open>What the handlers do with an exception that is not the soft time limit.\<close>

lemma sm_handler_records:
  "\<not> is_soft_timeout e \<Longrightarrow>
   static_handler i e s =
     (Inr (), s\<lparr>locals := (locals s)\<lparr>sm_status := ERROR, sm_error := str e\<rparr>,
               db := (db s)\<lparr>static_mixes :=
                        (static_mixes (db s))(i \<mapsto> (locals s)\<lparr>sm_status := ERROR, sm_error := str e\<rparr>)\<rparr>,
               trace := trace s @
                 (case e of FileNotFoundError m \<Rightarrow>
                    [Print m, Print ''Please make sure you have FFmpeg and FFprobe installed.'']
                  | _ \<Rightarrow> [Print (str e)]) @
                 [Assign_status ERROR, Save ''StaticMix'' i (Some ERROR)]\<rparr>)"
  by (cases e) (simp_all add: static_handler_def sm_record_error_def sm_set_status_def
      sm_set_error_def sm_save_def M_defs)

lemma dm_handler_records:
  "\<not> is_soft_timeout e \<Longrightarrow>
   dynamic_handler i e s =
     (Inr (), s\<lparr>locals := (locals s)\<lparr>dm_status := ERROR, dm_error := str e\<rparr>,
               db := (db s)\<lparr>dynamic_mixes :=
                        (dynamic_mixes (db s))(i \<mapsto> (locals s)\<lparr>dm_status := ERROR, dm_error := str e\<rparr>)\<rparr>,
               trace := trace s @
                 (case e of FileNotFoundError m \<Rightarrow>
                    [Print m, Print ''Please make sure you have FFmpeg and FFprobe installed.'']
                  | _ \<Rightarrow> [Print (str e)]) @
                 [Assign_status ERROR, Save ''DynamicMix'' i (Some ERROR)]\<rparr>)"
  by (cases e) (simp_all add: dynamic_handler_def dm_record_error_def dm_set_status_def
      dm_set_error_def dm_save_def M_defs)

lemma yt_handler_records:
  "\<not> is_soft_timeout e \<Longrightarrow>
   fetch_handler t e s =
     (Inl e, s\<lparr>locals := (locals s)\<lparr>fetch_task := (fetch_task (locals s))\<lparr>yt_status := ERROR, yt_error := str e\<rparr>\<rparr>,
               db := (db s)\<lparr>yt_tasks :=
                        (yt_tasks (db s))(t \<mapsto> (fetch_task (locals s))\<lparr>yt_status := ERROR, yt_error := str e\<rparr>)\<rparr>,
               trace := trace s @ [Print (str e), Assign_status ERROR,
                                   Save ''YTAudioDownloadTask'' t (Some ERROR)]\<rparr>)"
  by (cases e) (simp_all add: fetch_handler_def yt_record_error_def yt_set_status_def
      yt_set_error_def yt_save_def M_defs)




lemma static_body_timeout:
  "static_body deploy_timeout ''1'' (enter world0 sm0) =
     (Inl (SoftTimeLimitExceeded ''''),
      snd (static_body deploy_timeout ''1'' (enter world0 sm0)))"
  "locals (snd (static_body deploy_timeout ''1'' (enter world0 sm0))) = sm0"
  "trace (snd (static_body deploy_timeout ''1'' (enter world0 sm0))) =
     [Call ''formatted_name'', Mkdir ''media/separate/1'', Call ''source_url'',
      Call ''create_static_mix'']"
  by (simp_all add: run_defs)

lemma dynamic_body_timeout:
  "dynamic_body deploy_timeout ''2'' (enter world0 dm0) =
     (Inl (SoftTimeLimitExceeded ''''),
      snd (dynamic_body deploy_timeout ''2'' (enter world0 dm0)))"
  "locals (snd (dynamic_body deploy_timeout ''2'' (enter world0 dm0))) = dm0"
  "trace (snd (dynamic_body deploy_timeout ''2'' (enter world0 dm0))) =
     [Call ''formatted_name'', Mkdir ''media/separate/2'', Call ''source_url'',
      Call ''separate_into_parts'']"
  by (simp_all add: run_defs)

lemma fetch_body_timeout:
  "fetch_body deploy_timeout ''3'' ''4'' ''a'' ''b'' ''l''
       (enter world0 \<lparr>source_file = sf0, fetch_task = yt0\<rparr>) =
     (Inl (SoftTimeLimitExceeded ''''),
      snd (fetch_body deploy_timeout ''3'' ''4'' ''a'' ''b'' ''l''
             (enter world0 \<lparr>source_file = sf0, fetch_task = yt0\<rparr>)))"
  "locals (snd (fetch_body deploy_timeout ''3'' ''4'' ''a'' ''b'' ''l''
       (enter world0 \<lparr>source_file = sf0, fetch_task = yt0\<rparr>))) =
     \<lparr>source_file = sf0, fetch_task = yt0\<rparr>"
  "trace (snd (fetch_body deploy_timeout ''3'' ''4'' ''a'' ''b'' ''l''
       (enter world0 \<lparr>source_file = sf0, fetch_task = yt0\<rparr>))) =
     [Call ''get_file_ext'', Mkdir ''media/uploads/3'', Call ''download_audio'']"
  by (simp_all add: run_defs)


section \<open>Claims about get_separator and missing records\<close>

text \<open>
  C9. \<open>get_separator\<close> returns a \<open>SpleeterSeparator\<close> exactly when its separator
  argument is the string \<open>spleeter\<close>; every other string, the empty one and unknown names
  included, gives \<open>DemucsSeparator\<close> of that string and \<open>random_shifts\<close>. The function
  is total: it rejects no name.
\<close>

theorem get_separator_spleeter_iff:
  "(get_separator sep n = SpleeterSeparator \<longleftrightarrow> sep = ''spleeter'') \<and>
   (sep \<noteq> ''spleeter'' \<longrightarrow> get_separator sep n = DemucsSeparator sep n)"
  by (simp add: get_separator_def)

theorem get_separator_spleeter_iff_witness:
  "get_separator ''spleeter'' 5 = SpleeterSeparator \<and>
   get_separator '''' 5 = DemucsSeparator '''' 5 \<and>
   get_separator ''Spleeter'' 5 = DemucsSeparator ''Spleeter'' 5"
  using get_separator_spleeter_iff [of "''spleeter''" 5]
    get_separator_spleeter_iff [of "''''" 5]
    get_separator_spleeter_iff [of "''Spleeter''" 5]
  by simp

text \<open>
  C8. When no StaticMix (DynamicMix) row has the given ie, \<open>create_static_mix\<close>
  (\<open>create_dynamic_mix\<close>) returns at once without raising: it prints one line and leaves
  the database and the disk as they were. \<open>fetch_youtube_audio\<close> returns in the same way
  when the SourceFile row is missing; when the SourceFile row exists and the
  YTAudioDownloadTask row does not, the unguarded lookup lets \<open>DoesNotExist\<close> escape and
  the world is unchanged.
\<close>

theorem missing_record_returns:
  "(static_mixes (db wa) ia = None \<longrightarrow>
      create_static_mix E ia wa =
        (Inr (), wa\<lparr>trace := trace wa @ [Print ''StaticMix does not exist'']\<rparr>)) \<and>
   (dynamic_mixes (db wb) ib = None \<longrightarrow>
      create_dynamic_mix E ib wb =
        (Inr (), wb\<lparr>trace := trace wb @ [Print ''DynamicMix does not exist'']\<rparr>)) \<and>
   (source_files (db wc) ic = None \<longrightarrow>
      fetch_youtube_audio E ic tc artist title link wc =
        (Inr (), wc\<lparr>trace := trace wc @ [Print ''SourceFile does not exist'']\<rparr>)) \<and>
   (source_files (db we) ie \<noteq> None \<and> yt_tasks (db we) te = None \<longrightarrow>
      fetch_youtube_audio E ie te artist title link we = (Inl does_not_exist, we))"
  by (auto simp: create_static_mix_def create_dynamic_mix_def fetch_youtube_audio_def)

theorem missing_record_returns_witness:
  "create_static_mix deploy_ext ''9'' world0 =
     (Inr (), world0\<lparr>trace := trace world0 @ [Print ''StaticMix does not exist'']\<rparr>) \<and>
   create_dynamic_mix deploy_ext ''9'' world0 =
     (Inr (), world0\<lparr>trace := trace world0 @ [Print ''DynamicMix does not exist'']\<rparr>) \<and>
   fetch_youtube_audio deploy_ext ''9'' ''4'' ''a'' ''b'' ''l'' world0 =
     (Inr (), world0\<lparr>trace := trace world0 @ [Print ''SourceFile does not exist'']\<rparr>) \<and>
   fetch_youtube_audio deploy_ext ''3'' ''9'' ''a'' ''b'' ''l'' world0 =
     (Inl does_not_exist, world0)"
proof -
  have "static_mixes (db world0) ''9'' = None" "dynamic_mixes (db world0) ''9'' = None"
    "source_files (db world0) ''9'' = None"
    "source_files (db world0) ''3'' \<noteq> None \<and> yt_tasks (db world0) ''9'' = None"
    by (simp_all add: world0_def)
  then show ?thesis
    using missing_record_returns [where E = deploy_ext and wa = world0 and ia = "''9''"
        and wb = world0 and ib = "''9''" and wc = world0 and ic = "''9''" and tc = "''4''"
        and we = world0 and ie = "''3''" and te = "''9''"
        and artist = "''a''" and title = "''b''" and link = "''l''"]
    by blast
qed

section \<open>Claims about caught exceptions\<close>

text \<open>
  C5. When the try block of a task raises \<open>SoftTimeLimitExceeded\<close>, the task prints
  \<open>Aborted!\<close> and does nothing else: the database, the disk and the loaded row are those
  of the moment of the exception (no status or error field is written, nothing is saved),
  and the task returns normally (nothing is re-raised). This holds in all three tasks.
\<close>

theorem soft_timeout_only_logged:
  "(static_body E ia sa = (Inl (SoftTimeLimitExceeded ma), sa') \<longrightarrow>
      static_try E ia sa = (Inr (), sa'\<lparr>trace := trace sa' @ [Print ''Aborted!'']\<rparr>)) \<and>
   (dynamic_body E ib sb = (Inl (SoftTimeLimitExceeded mb), sb') \<longrightarrow>
      dynamic_try E ib sb = (Inr (), sb'\<lparr>trace := trace sb' @ [Print ''Aborted!'']\<rparr>)) \<and>
   (fetch_body E ic tc artist title link sc = (Inl (SoftTimeLimitExceeded mc), sc') \<longrightarrow>
      fetch_try E ic tc artist title link sc =
        (Inr (), sc'\<lparr>trace := trace sc' @ [Print ''Aborted!'']\<rparr>))"
  by (simp add: static_try_def dynamic_try_def fetch_try_def try_except_def
      static_handler_def dynamic_handler_def fetch_handler_def print_def emit_def)

theorem soft_timeout_only_logged_witness:
  "static_try deploy_timeout ''1'' (enter world0 sm0) =
     (Inr (), (snd (static_body deploy_timeout ''1'' (enter world0 sm0)))
        \<lparr>trace := [Call ''formatted_name'', Mkdir ''media/separate/1'', Call ''source_url'',
                   Call ''create_static_mix'', Print ''Aborted!'']\<rparr>) \<and>
   dynamic_try deploy_timeout ''2'' (enter world0 dm0) =
     (Inr (), (snd (dynamic_body deploy_timeout ''2'' (enter world0 dm0)))
        \<lparr>trace := [Call ''formatted_name'', Mkdir ''media/separate/2'', Call ''source_url'',
                   Call ''separate_into_parts'', Print ''Aborted!'']\<rparr>) \<and>
   fetch_try deploy_timeout ''3'' ''4'' ''a'' ''b'' ''l''
       (enter world0 \<lparr>source_file = sf0, fetch_task = yt0\<rparr>) =
     (Inr (), (snd (fetch_body deploy_timeout ''3'' ''4'' ''a'' ''b'' ''l''
                      (enter world0 \<lparr>source_file = sf0, fetch_task = yt0\<rparr>)))
        \<lparr>trace := [Call ''get_file_ext'', Mkdir ''media/uploads/3'', Call ''download_audio'',
                   Print ''Aborted!'']\<rparr>)"
  using soft_timeout_only_logged [where E = deploy_timeout
      and ia = "''1''" and sa = "enter world0 sm0" and ma = "''''"
      and sa' = "snd (static_body deploy_timeout ''1'' (enter world0 sm0))"
      and ib = "''2''" and sb = "enter world0 dm0" and mb = "''''"
      and sb' = "snd (dynamic_body deploy_timeout ''2'' (enter world0 dm0))"
      and ic = "''3''" and tc = "''4''" and artist = "''a''" and title = "''b''" and link = "''l''"
      and sc = "enter world0 \<lparr>source_file = sf0, fetch_task = yt0\<rparr>" and mc = "''''"
      and sc' = "snd (fetch_body deploy_timeout ''3'' ''4'' ''a'' ''b'' ''l''
                        (enter world0 \<lparr>source_file = sf0, fetch_task = yt0\<rparr>))"]
    static_body_timeout dynamic_body_timeout fetch_body_timeout
  by simp









section \<open>The loops over the four parts\<close>

text \<open>What \<open>exists_all_parts\<close> logs on a given disk: it stops at the first missing part.\<close>

fun exists_events :: "fsys \<Rightarrow> string \<Rightarrow> string list \<Rightarrow> event list" where
  "exists_events fs rel_path [] = []"
| "exists_events fs rel_path (part # parts) =
     (if os_path_exists fs (os_path_join rel_path [part @ ''.mp3''])
      then Exists (os_path_join rel_path [part @ ''.mp3'']) True # exists_events fs rel_path parts
      else [Exists (os_path_join rel_path [part @ ''.mp3'']) False,
            Print (os_path_join rel_path [part @ ''.mp3''] @ '' does not exist'')])"

definition all_parts :: "string list" where
  "all_parts = [''vocals'', ''other'', ''bass'', ''drums'']"

definition parts_exist :: "fsys \<Rightarrow> string \<Rightarrow> bool" where
  "parts_exist fs rel_path =
     list_all (\<lambda>part. os_path_exists fs (os_path_join rel_path [part @ ''.mp3''])) all_parts"

lemma exists_parts_run:
  "exists_parts rel_path parts s =
     (Inr (list_all (\<lambda>part. os_path_exists (disk s) (os_path_join rel_path [part @ ''.mp3''])) parts),
      s\<lparr>trace := trace s @ exists_events (disk s) rel_path parts\<rparr>)"
proof (induction parts arbitrary: s)
  case Nil
  show ?case by (simp add: ret_def)
next
  case (Cons part parts)
  show ?case
    by (simp add: Cons.IH Let_def bind_def andthen_def path_exists_def print_def emit_def ret_def)
qed

lemma exists_all_parts_run:
  "exists_all_parts rel_path s =
     (Inr (parts_exist (disk s) rel_path),
      s\<lparr>trace := trace s @ exists_events (disk s) rel_path all_parts\<rparr>)"
  unfolding exists_all_parts_def parts_exist_def all_parts_def by (rule exists_parts_run)

lemma exists_events_only_checks:
  "ev \<in> set (exists_events fs rel_path parts) \<Longrightarrow> (\<exists>p b. ev = Exists p b) \<or> (\<exists>l. ev = Print l)"
  by (induction parts) (auto split: if_splits)

section \<open>Claims about the check of the output files\<close>

text \<open>
  C4. After the separator or the downloader has returned, each task checks that the
  expected output exists on the disk they left: \<open>create_static_mix\<close> and
  \<open>fetch_youtube_audio\<close> the one output file, \<open>create_dynamic_mix\<close> all four part
  files. When the check fails, the task raises \<open>Exception('Error writing to file')\<close>,
  which its handler records: the row is saved with status \<open>ERROR\<close> and that message, the
  status is never assigned \<open>DONE\<close> in between, and \<open>fetch_youtube_audio\<close> re-raises
  the exception.
\<close>

theorem missing_output_is_error:
  "(static_separate E ia sa = (Inr filename, sa') \<and>
    \<not> os_path_exists (disk sa') (static_rel_path E ia filename) \<longrightarrow>
      fst (static_try E ia sa) = Inr () \<and>
      trace (snd (static_try E ia sa)) =
        trace sa' @ [Exists (static_rel_path E ia filename) False, Print ''Error writing to file'',
                     Assign_status ERROR, Save ''StaticMix'' ia (Some ERROR)] \<and>
      static_mixes (db (snd (static_try E ia sa))) ia =
        Some ((locals sa')\<lparr>sm_status := ERROR, sm_error := ''Error writing to file''\<rparr>)) \<and>
   (dynamic_separate E ib sb = (Inr pre, sb') \<and>
    \<not> parts_exist (disk sb') (dynamic_rel_path E ib) \<longrightarrow>
      fst (dynamic_try E ib sb) = Inr () \<and>
      trace (snd (dynamic_try E ib sb)) =
        trace sb' @ exists_events (disk sb') (dynamic_rel_path E ib) all_parts @
          [Print ''Error writing to file'', Assign_status ERROR,
           Save ''DynamicMix'' ib (Some ERROR)] \<and>
      Assign_status DONE \<notin> set (exists_events (disk sb') (dynamic_rel_path E ib) all_parts) \<and>
      dynamic_mixes (db (snd (dynamic_try E ib sb))) ib =
        Some ((locals sb')\<lparr>dm_status := ERROR, dm_error := ''Error writing to file''\<rparr>)) \<and>
   (fetch_download E ic artist title link sc = (Inr filename', sc') \<and>
    \<not> os_path_exists (disk sc') (fetch_rel_path E ic filename') \<longrightarrow>
      fst (fetch_try E ic tc artist title link sc) = Inl (Exception ''Error writing to file'') \<and>
      trace (snd (fetch_try E ic tc artist title link sc)) =
        trace sc' @ [Exists (fetch_rel_path E ic filename') False, Print ''Error writing to file'',
                     Assign_status ERROR, Save ''YTAudioDownloadTask'' tc (Some ERROR)] \<and>
      yt_tasks (db (snd (fetch_try E ic tc artist title link sc))) tc =
        Some ((fetch_task (locals sc'))\<lparr>yt_status := ERROR, yt_error := ''Error writing to file''\<rparr>))"
proof (intro conjI impI)
  assume a: "static_separate E ia sa = (Inr filename, sa') \<and>
    \<not> os_path_exists (disk sa') (static_rel_path E ia filename)"
  then have b: "static_body E ia sa =
      (Inl error_writing, sa'\<lparr>trace := trace sa' @ [Exists (static_rel_path E ia filename) False]\<rparr>)"
    by (simp add: static_body_def static_store_def bind_def path_exists_def throw_def Let_def)
  show "fst (static_try E ia sa) = Inr ()"
    "trace (snd (static_try E ia sa)) =
        trace sa' @ [Exists (static_rel_path E ia filename) False, Print ''Error writing to file'',
                     Assign_status ERROR, Save ''StaticMix'' ia (Some ERROR)]"
    "static_mixes (db (snd (static_try E ia sa))) ia =
        Some ((locals sa')\<lparr>sm_status := ERROR, sm_error := ''Error writing to file''\<rparr>)"
    by (simp_all add: static_try_def try_except_def b error_writing_def sm_handler_records)
next
  assume a: "dynamic_separate E ib sb = (Inr pre, sb') \<and>
    \<not> parts_exist (disk sb') (dynamic_rel_path E ib)"
  then have b: "dynamic_body E ib sb =
      (Inl error_writing,
       sb'\<lparr>trace := trace sb' @ exists_events (disk sb') (dynamic_rel_path E ib) all_parts\<rparr>)"
    by (simp add: dynamic_body_def dynamic_store_def bind_def exists_all_parts_run throw_def Let_def)
  show "fst (dynamic_try E ib sb) = Inr ()"
    "trace (snd (dynamic_try E ib sb)) =
        trace sb' @ exists_events (disk sb') (dynamic_rel_path E ib) all_parts @
          [Print ''Error writing to file'', Assign_status ERROR,
           Save ''DynamicMix'' ib (Some ERROR)]"
    "dynamic_mixes (db (snd (dynamic_try E ib sb))) ib =
        Some ((locals sb')\<lparr>dm_status := ERROR, dm_error := ''Error writing to file''\<rparr>)"
    by (simp_all add: dynamic_try_def try_except_def b error_writing_def dm_handler_records)
  show "Assign_status DONE \<notin> set (exists_events (disk sb') (dynamic_rel_path E ib) all_parts)"
    using exists_events_only_checks by blast
next
  assume a: "fetch_download E ic artist title link sc = (Inr filename', sc') \<and>
    \<not> os_path_exists (disk sc') (fetch_rel_path E ic filename')"
  then have b: "fetch_body E ic tc artist title link sc =
      (Inl error_writing, sc'\<lparr>trace := trace sc' @ [Exists (fetch_rel_path E ic filename') False]\<rparr>)"
    by (simp add: fetch_body_def fetch_store_def bind_def path_exists_def throw_def Let_def)
  show "fst (fetch_try E ic tc artist title link sc) = Inl (Exception ''Error writing to file'')"
    "trace (snd (fetch_try E ic tc artist title link sc)) =
        trace sc' @ [Exists (fetch_rel_path E ic filename') False, Print ''Error writing to file'',
                     Assign_status ERROR, Save ''YTAudioDownloadTask'' tc (Some ERROR)]"
    "yt_tasks (db (snd (fetch_try E ic tc artist title link sc))) tc =
        Some ((fetch_task (locals sc'))\<lparr>yt_status := ERROR, yt_error := ''Error writing to file''\<rparr>)"
    by (simp_all add: fetch_try_def try_except_def b error_writing_def yt_handler_records)
qed

lemma separate_silent:
  "fst (static_separate deploy_silent ''1'' (enter world0 sm0)) = Inr ''song.mp3''"
  "disk (snd (static_separate deploy_silent ''1'' (enter world0 sm0))) =
     [(''media'', Dir), (''media/separate'', Dir), (''media/separate/1'', Dir)]"
  "locals (snd (static_separate deploy_silent ''1'' (enter world0 sm0))) = sm0"
  "fst (dynamic_separate deploy_silent ''2'' (enter world0 dm0)) = Inr ''song''"
  "disk (snd (dynamic_separate deploy_silent ''2'' (enter world0 dm0))) =
     [(''media'', Dir), (''media/separate'', Dir), (''media/separate/2'', Dir)]"
  "locals (snd (dynamic_separate deploy_silent ''2'' (enter world0 dm0))) = dm0"
  "fst (fetch_download deploy_silent ''3'' ''a'' ''b'' ''l''
       (enter world0 \<lparr>source_file = sf0, fetch_task = yt0\<rparr>)) = Inr ''a-b.webm''"
  "disk (snd (fetch_download deploy_silent ''3'' ''a'' ''b'' ''l''
       (enter world0 \<lparr>source_file = sf0, fetch_task = yt0\<rparr>))) =
     [(''media'', Dir), (''media/uploads'', Dir), (''media/uploads/3'', Dir)]"
  "fetch_task (locals (snd (fetch_download deploy_silent ''3'' ''a'' ''b'' ''l''
       (enter world0 \<lparr>source_file = sf0, fetch_task = yt0\<rparr>)))) = yt0"
  by (simp_all add: run_defs)

lemma paths_silent:
  "static_rel_path deploy_silent ''1'' ''song.mp3'' = ''media/separate/1/song.mp3''"
  "dynamic_rel_path deploy_silent ''2'' = ''media/separate/2''"
  "fetch_rel_path deploy_silent ''3'' ''a-b.webm'' = ''media/uploads/3/a-b.webm''"
  by (simp_all add: run_defs)

theorem missing_output_is_error_witness:
  "fst (static_try deploy_silent ''1'' (enter world0 sm0)) = Inr () \<and>
   static_mixes (db (snd (static_try deploy_silent ''1'' (enter world0 sm0)))) ''1'' =
     Some (sm0\<lparr>sm_status := ERROR, sm_error := ''Error writing to file''\<rparr>) \<and>
   fst (dynamic_try deploy_silent ''2'' (enter world0 dm0)) = Inr () \<and>
   dynamic_mixes (db (snd (dynamic_try deploy_silent ''2'' (enter world0 dm0)))) ''2'' =
     Some (dm0\<lparr>dm_status := ERROR, dm_error := ''Error writing to file''\<rparr>) \<and>
   fst (fetch_try deploy_silent ''3'' ''4'' ''a'' ''b'' ''l''
          (enter world0 \<lparr>source_file = sf0, fetch_task = yt0\<rparr>)) =
     Inl (Exception ''Error writing to file'') \<and>
   yt_tasks (db (snd (fetch_try deploy_silent ''3'' ''4'' ''a'' ''b'' ''l''
          (enter world0 \<lparr>source_file = sf0, fetch_task = yt0\<rparr>)))) ''4'' =
     Some (yt0\<lparr>yt_status := ERROR, yt_error := ''Error writing to file''\<rparr>)"
proof -
  let ?sa = "snd (static_separate deploy_silent ''1'' (enter world0 sm0))"
  let ?sb = "snd (dynamic_separate deploy_silent ''2'' (enter world0 dm0))"
  let ?sc = "snd (fetch_download deploy_silent ''3'' ''a'' ''b'' ''l''
                (enter world0 \<lparr>source_file = sf0, fetch_task = yt0\<rparr>))"
  have ha: "static_separate deploy_silent ''1'' (enter world0 sm0) = (Inr ''song.mp3'', ?sa) \<and>
      \<not> os_path_exists (disk ?sa) (static_rel_path deploy_silent ''1'' ''song.mp3'')"
    by (simp add: prod_eq_iff separate_silent paths_silent os_path_exists_def)
  have hb: "dynamic_separate deploy_silent ''2'' (enter world0 dm0) = (Inr ''song'', ?sb) \<and>
      \<not> parts_exist (disk ?sb) (dynamic_rel_path deploy_silent ''2'')"
    by (simp add: prod_eq_iff separate_silent paths_silent parts_exist_def all_parts_def
        os_path_exists_def os_path_join_def os_path_join2_def)
  have hc: "fetch_download deploy_silent ''3'' ''a'' ''b'' ''l''
                (enter world0 \<lparr>source_file = sf0, fetch_task = yt0\<rparr>) = (Inr ''a-b.webm'', ?sc) \<and>
      \<not> os_path_exists (disk ?sc) (fetch_rel_path deploy_silent ''3'' ''a-b.webm'')"
    by (simp add: prod_eq_iff separate_silent paths_silent os_path_exists_def)
  note t = missing_output_is_error [where E = deploy_silent
      and ia = "''1''" and sa = "enter world0 sm0" and filename = "''song.mp3''" and sa' = ?sa
      and ib = "''2''" and sb = "enter world0 dm0" and pre = "''song''" and sb' = ?sb
      and ic = "''3''" and tc = "''4''" and artist = "''a''" and title = "''b''" and link = "''l''"
      and sc = "enter world0 \<lparr>source_file = sf0, fetch_task = yt0\<rparr>"
      and filename' = "''a-b.webm''" and sc' = ?sc]
  note ta = t [THEN conjunct1, THEN mp, OF ha]
  note tb = t [THEN conjunct2, THEN conjunct1, THEN mp, OF hb]
  note tc = t [THEN conjunct2, THEN conjunct2, THEN mp, OF hc]
  show ?thesis
    using ta tb tc by (simp add: separate_silent)
qed


section \<open>Which database rows a task writes\<close>

text \<open>
  \<open>only_rows T d d'\<close>: the databases \<open>d\<close> and \<open>d'\<close> agree on every row that is not
  listed in \<open>T\<close> by table name and id. \<open>writes_only T m\<close>: whatever the starting state,
  the action \<open>m\<close> changes no row outside \<open>T\<close>.
\<close>

definition only_rows :: "(string \<times> string) list \<Rightarrow> database \<Rightarrow> database \<Rightarrow> bool" where
  "only_rows T d d' =
     ((\<forall>k. (''StaticMix'', k) \<notin> set T \<longrightarrow> static_mixes d' k = static_mixes d k) \<and>
      (\<forall>k. (''DynamicMix'', k) \<notin> set T \<longrightarrow> dynamic_mixes d' k = dynamic_mixes d k) \<and>
      (\<forall>k. (''SourceFile'', k) \<notin> set T \<longrightarrow> source_files d' k = source_files d k) \<and>
      (\<forall>k. (''YTAudioDownloadTask'', k) \<notin> set T \<longrightarrow> yt_tasks d' k = yt_tasks d k))"

definition writes_only :: "(string \<times> string) list \<Rightarrow> ('l, 'a) M \<Rightarrow> bool" where
  "writes_only T m = (\<forall>s. only_rows T (db s) (db (snd (m s))))"

named_theorems frame \<open>rules for writes_only\<close>

lemma only_rows_refl: "only_rows T d d"
  by (simp add: only_rows_def)

lemma only_rows_trans: "only_rows T d d' \<Longrightarrow> only_rows T d' d'' \<Longrightarrow> only_rows T d d''"
  by (simp add: only_rows_def)

lemma writes_only_same_db:
  "(\<And>s. db (snd (m s)) = db s) \<Longrightarrow> writes_only T m"
  by (simp add: writes_only_def only_rows_refl)

lemma writes_only_ret [frame]: "writes_only T (ret x)"
  by (rule writes_only_same_db) (simp add: ret_def)

lemma writes_only_throw [frame]: "writes_only T (throw e)"
  by (rule writes_only_same_db) (simp add: throw_def)

lemma writes_only_emit [frame]: "writes_only T (emit ev)"
  by (rule writes_only_same_db) (simp add: emit_def)

lemma writes_only_print [frame]: "writes_only T (print l)"
  by (simp add: print_def writes_only_emit)

lemma writes_only_get_locals [frame]: "writes_only T get_locals"
  by (rule writes_only_same_db) (simp add: get_locals_def)

lemma writes_only_modify_locals [frame]: "writes_only T (modify_locals f)"
  by (rule writes_only_same_db) (simp add: modify_locals_def)

lemma writes_only_fs_op [frame]: "writes_only T (fs_op f ev)"
  by (rule writes_only_same_db) (simp add: fs_op_def split: sum.split)

lemma writes_only_path_exists [frame]: "writes_only T (path_exists p)"
  by (rule writes_only_same_db) (simp add: path_exists_def)

lemma writes_only_read_file [frame]: "writes_only T (read_file p)"
  by (rule writes_only_same_db) (simp add: read_file_def split: sum.split)

lemma writes_only_item [frame]: "writes_only T (item d k)"
  by (rule writes_only_same_db) (simp add: item_def split: option.split)

lemma writes_only_bind [frame]:
  assumes "writes_only T m" and "\<And>x. writes_only T (f x)"
  shows "writes_only T (bind m f)"
  unfolding writes_only_def
proof
  fix s
  show "only_rows T (db s) (db (snd (bind m f s)))"
  proof (cases "m s")
    case (Pair r s')
    have first: "only_rows T (db s) (db s')"
      using assms(1) Pair by (auto simp: writes_only_def dest: spec [of _ s])
    show ?thesis
    proof (cases r)
      case (Inl e)
      with Pair first show ?thesis by (simp add: bind_def)
    next
      case (Inr x)
      have "only_rows T (db s') (db (snd (f x s')))"
        using assms(2) by (simp add: writes_only_def)
      with Pair Inr first show ?thesis
        by (auto simp: bind_def intro: only_rows_trans)
    qed
  qed
qed

lemma writes_only_andthen [frame]:
  "writes_only T m \<Longrightarrow> writes_only T n \<Longrightarrow> writes_only T (andthen m n)"
  by (simp add: andthen_def writes_only_bind)

lemma writes_only_try_except [frame]:
  assumes "writes_only T m" and "\<And>e. writes_only T (h e)"
  shows "writes_only T (try_except m h)"
  unfolding writes_only_def
proof
  fix s
  show "only_rows T (db s) (db (snd (try_except m h s)))"
  proof (cases "m s")
    case (Pair r s')
    have first: "only_rows T (db s) (db s')"
      using assms(1) Pair by (auto simp: writes_only_def dest: spec [of _ s])
    show ?thesis
    proof (cases r)
      case (Inr x)
      with Pair first show ?thesis by (simp add: try_except_def)
    next
      case (Inl e)
      have "only_rows T (db s') (db (snd (h e s')))"
        using assms(2) by (simp add: writes_only_def)
      with Pair Inl first show ?thesis
        by (auto simp: try_except_def intro: only_rows_trans)
    qed
  qed
qed

lemma writes_only_if [frame]:
  "writes_only T m \<Longrightarrow> writes_only T n \<Longrightarrow> writes_only T (if b then m else n)"
  by simp

lemma writes_only_call [frame]: "writes_only T (call name r)"
  unfolding call_def
  by (rule writes_only_bind, rule writes_only_emit, rule writes_only_same_db) simp

lemma writes_only_call_ext [frame]: "writes_only T (call_ext name f)"
  unfolding call_ext_def
  by (rule writes_only_bind, rule writes_only_emit, rule writes_only_same_db)
    (simp split: prod.split option.split)

lemma writes_only_set_file [frame]: "writes_only T (set_file upd f)"
  by (simp add: set_file_def frame)

lemma writes_only_set_file_name [frame]: "writes_only T (set_file_name sel upd n)"
  by (simp add: set_file_name_def frame)

lemma writes_only_orm_save [frame]: "writes_only T m \<Longrightarrow> writes_only T (orm_save fault m)"
  by (cases fault) (simp_all add: orm_save_def writes_only_throw)

lemma writes_only_sm_save [frame]: "(''StaticMix'', i) \<in> set T \<Longrightarrow> writes_only T (sm_save i)"
  by (auto simp: writes_only_def only_rows_def sm_save_def)

lemma writes_only_dm_save [frame]: "(''DynamicMix'', i) \<in> set T \<Longrightarrow> writes_only T (dm_save i)"
  by (auto simp: writes_only_def only_rows_def dm_save_def)

lemma writes_only_yt_save [frame]:
  "(''YTAudioDownloadTask'', i) \<in> set T \<Longrightarrow> writes_only T (yt_save i)"
  by (auto simp: writes_only_def only_rows_def yt_save_def)

lemma writes_only_sf_save [frame]: "(''SourceFile'', i) \<in> set T \<Longrightarrow> writes_only T (sf_save i)"
  by (auto simp: writes_only_def only_rows_def sf_save_def)

lemma writes_only_exists_parts [frame]: "writes_only T (exists_parts rel_path parts)"
  by (rule writes_only_same_db) (simp add: exists_parts_run)

lemma writes_only_rename_parts [frame]: "writes_only T (rename_parts rel_path pre parts)"
  by (induction parts) (simp_all add: Let_def frame)

lemma writes_only_read_parts [frame]: "writes_only T (read_parts dir filenames parts content_files)"
  by (induction parts arbitrary: content_files) (simp_all add: Let_def frame)

lemma writes_only_static_try:
  "writes_only [(''StaticMix'', i)] (static_try E i)"
  by (simp add: static_try_def static_body_def static_separate_def static_store_def
      static_handler_def sm_record_error_def sm_set_status_def sm_set_error_def Let_def frame
      split: exn.split)

lemma writes_only_dynamic_try:
  "writes_only [(''DynamicMix'', i)] (dynamic_try E i)"
  by (simp add: dynamic_try_def dynamic_body_def dynamic_separate_def dynamic_store_def
      dynamic_handler_def dm_record_error_def dm_set_status_def dm_set_error_def
      exists_all_parts_def rename_all_parts_def save_to_local_storage_def
      save_to_ext_storage_def Let_def frame split: exn.split)

lemma writes_only_fetch_try:
  "writes_only [(''SourceFile'', i), (''YTAudioDownloadTask'', t)] (fetch_try E i t artist title link)"
  by (simp add: fetch_try_def fetch_body_def fetch_download_def fetch_store_def
      fetch_handler_def yt_record_error_def yt_set_status_def yt_set_error_def Let_def frame
      split: exn.split)

text \<open>
  C2 (as amended). A task run writes no database row but those identified by the ids it
  was invoked with: \<open>create_static_mix\<close> only the StaticMix row with the given id,
  \<open>create_dynamic_mix\<close> only the DynamicMix row with the given id, and
  \<open>fetch_youtube_audio\<close> only the YTAudioDownloadTask row with its \<open>fetch_task_id\<close> and
  the SourceFile row with its \<open>source_file_id\<close>. The claim as stated has every run write
  exactly one row; a successful \<open>fetch_youtube_audio\<close> writes two (see the
  counterexample), and a run on a missing record writes none.
\<close>

theorem task_writes_only_its_rows:
  "only_rows [(''StaticMix'', ia)] (db w) (db (snd (create_static_mix E ia w))) \<and>
   only_rows [(''DynamicMix'', ib)] (db w) (db (snd (create_dynamic_mix E ib w))) \<and>
   only_rows [(''SourceFile'', ic), (''YTAudioDownloadTask'', tc)] (db w)
     (db (snd (fetch_youtube_audio E ic tc artist title link w)))"
proof (intro conjI)
  have "writes_only [(''StaticMix'', ia)]
      (andthen (sm_set_status IN_PROGRESS) (andthen (sm_save ia) (static_try E ia)))"
    by (simp add: sm_set_status_def frame writes_only_static_try)
  then show "only_rows [(''StaticMix'', ia)] (db w) (db (snd (create_static_mix E ia w)))"
    by (auto simp: create_static_mix_def writes_only_def only_rows_refl leave_def enter_def
        split: option.split dest: spec [of _ "enter w x" for x])
next
  have "writes_only [(''DynamicMix'', ib)]
      (andthen (dm_set_status IN_PROGRESS) (andthen (dm_save ib) (dynamic_try E ib)))"
    by (simp add: dm_set_status_def frame writes_only_dynamic_try)
  then show "only_rows [(''DynamicMix'', ib)] (db w) (db (snd (create_dynamic_mix E ib w)))"
    by (auto simp: create_dynamic_mix_def writes_only_def only_rows_refl leave_def enter_def
        split: option.split dest: spec [of _ "enter w x" for x])
next
  have "writes_only [(''SourceFile'', ic), (''YTAudioDownloadTask'', tc)]
      (andthen (yt_set_status IN_PROGRESS)
         (andthen (yt_save tc) (fetch_try E ic tc artist title link)))"
    by (simp add: yt_set_status_def frame writes_only_fetch_try)
  then show "only_rows [(''SourceFile'', ic), (''YTAudioDownloadTask'', tc)] (db w)
     (db (snd (fetch_youtube_audio E ic tc artist title link w)))"
    by (auto simp: fetch_youtube_audio_def writes_only_def only_rows_refl leave_def enter_def
        split: option.split dest: spec [of _ "enter w x" for x])
qed

theorem task_writes_only_its_rows_witness:
  "static_mixes (db (snd (create_dynamic_mix deploy_ext ''2'' world0))) ''1'' = Some sm0 \<and>
   yt_tasks (db (snd (create_static_mix deploy_ext ''1'' world0))) ''4'' = Some yt0 \<and>
   dynamic_mixes (db (snd (fetch_youtube_audio deploy_ext ''3'' ''4'' ''a'' ''b'' ''l'' world0))) ''2'' =
     Some dm0"
  using task_writes_only_its_rows [where E = deploy_ext and w = world0 and ia = "''1''"
      and ib = "''2''" and ic = "''3''" and tc = "''4''"
      and artist = "''a''" and title = "''b''" and link = "''l''"]
  by (simp add: only_rows_def world0_def)

text \<open>
  A successful download on the external-storage deployment: the run changes the
  YTAudioDownloadTask row 4 (its status) and the SourceFile row 3 (its file), two rows.
\<close>

theorem task_writes_only_its_rows_counterexample:
  "yt_tasks (db (snd (fetch_youtube_audio deploy_ext ''3'' ''4'' ''a'' ''b'' ''l'' world0))) ''4'' =
     Some (yt0\<lparr>yt_status := DONE\<rparr>) \<and>
   yt_tasks (db world0) ''4'' = Some yt0 \<and> yt0\<lparr>yt_status := DONE\<rparr> \<noteq> yt0 \<and>
   source_files (db (snd (fetch_youtube_audio deploy_ext ''3'' ''4'' ''a'' ''b'' ''l'' world0))) ''3'' =
     Some \<lparr>sf_file = ContentFile (Some ''a-b.webm'') ''audio''\<rparr> \<and>
   source_files (db world0) ''3'' = Some sf0 \<and>
   \<lparr>sf_file = ContentFile (Some ''a-b.webm'') ''audio''\<rparr> \<noteq> sf0"
  by (simp add: run_defs)


section \<open>The order of the steps of a run\<close>














































section \<open>The phases of create_static_mix\<close>








text \<open>The last of the statuses saved after \<open>IN_PROGRESS\<close>.\<close>

lemma last_saved:
  "Some (last (IN_PROGRESS # sts)) = (if sts = [] then Some IN_PROGRESS else Some (last sts))"
  by simp


section \<open>The phases of fetch_youtube_audio\<close>











section \<open>The phases of create_dynamic_mix\<close>






















section \<open>Runs on the concrete deployments\<close>




















section \<open>Claim about the order of the steps\<close>





section \<open>Runs that end with the job row DONE\<close>




















section \<open>Claim about external storage\<close>






section \<open>Claim about the renamed parts of a dynamic mix\<close>









end
